theory Spec2Isabelle
  imports Complex_Main
begin

section \<open>The grid of \<^verbatim>\<open>avogadro/qtgui/cube.h\<close>\<close>

text \<open>
  The class \<^verbatim>\<open>Cube\<close> stores a regularly spaced 3D grid of \<^verbatim>\<open>double\<close> samples in one
  flat \<^verbatim>\<open>std::vector<double> m_data\<close>, together with the geometry
  (\<^verbatim>\<open>m_min\<close>, \<^verbatim>\<open>m_max\<close>, \<^verbatim>\<open>m_spacing\<close>, \<^verbatim>\<open>m_points\<close>), the tracked extrema
  (\<^verbatim>\<open>m_minValue\<close>, \<^verbatim>\<open>m_maxValue\<close>), a name, a type tag and a lock pointer.

  The only function with a body in the header, \<^verbatim>\<open>setValue(unsigned int, double)\<close>, stores
  its value and compares it with \<^verbatim>\<open><\<close> and \<^verbatim>\<open>>\<close>; it does no arithmetic. The record
  and that function are therefore generic in the type \<open>'v\<close> of a sample, which only needs
  the two comparisons. Two sample types are used:
  \<^item> \<open>double\<close> below, with the comparisons of IEEE 754: the numbers, the two infinities
    and NaN, which compares false with everything, itself included;
  \<^item> \<^typ>\<open>real\<close>, for the operations whose bodies are missing and which are written from
    the specification over exact arithmetic.
  An \<^verbatim>\<open>unsigned int\<close> index is a \<^typ>\<open>nat\<close> (the source does no arithmetic on it), an
  \<^verbatim>\<open>int\<close> is an \<^typ>\<open>int\<close>, and the pointer \<^verbatim>\<open>m_lock\<close> is the address it holds.
\<close>

type_synonym Vector3 = "real \<times> real \<times> real"
type_synonym Vector3i = "int \<times> int \<times> int"

datatype Type = VdW | ESP | ElectronDensity | MO | FromFile | NoType

record 'v Cube =
  m_data :: "'v list"
  m_min :: Vector3
  m_max :: Vector3
  m_spacing :: Vector3
  m_points :: Vector3i
  m_minValue :: 'v
  m_maxValue :: 'v
  m_name :: string
  m_cubeType :: Type
  m_lock :: nat

subsection \<open>The values of a \<^verbatim>\<open>double\<close> and their comparisons\<close>

text \<open>
  A \<^verbatim>\<open>double\<close> is a number, \<open>+\<infinity>\<close>, \<open>-\<infinity>\<close> or NaN. The numbers are taken from the reals
  (every finite \<^verbatim>\<open>double\<close> is one, and the order is the same); the two zeros compare equal
  and are one value here. \<^verbatim>\<open>a < b\<close> is false as soon as one side is NaN, and \<^verbatim>\<open>a <= b\<close>
  is \<^verbatim>\<open>a < b || a == b\<close>, where NaN equals nothing.
\<close>

datatype double = NegInf | Num real | PosInf | NaN

fun dless :: "double \<Rightarrow> double \<Rightarrow> bool" where
  "dless NaN y = False"
| "dless x NaN = False"
| "dless NegInf NegInf = False"
| "dless NegInf y = True"
| "dless (Num a) NegInf = False"
| "dless (Num a) (Num b) = (a < b)"
| "dless (Num a) PosInf = True"
| "dless PosInf y = False"

instantiation double :: ord
begin

definition less_double :: "double \<Rightarrow> double \<Rightarrow> bool" where
  "less_double x y = dless x y"

definition less_eq_double :: "double \<Rightarrow> double \<Rightarrow> bool" where
  "less_eq_double x y = (dless x y \<or> (x = y \<and> x \<noteq> NaN))"

instance ..

end

subsection \<open>The inline \<^verbatim>\<open>Cube::setValue(unsigned int, double)\<close>\<close>

text \<open>
  \<^verbatim>\<open>
  inline bool Cube::setValue(unsigned int i, double value_)
  {
    if (i < m_data.size()) {
      m_data[i] = value_;
      if (value_ > m_maxValue)
        m_maxValue = value_;
      if (value_ < m_minValue)
        m_minValue = value_;
      return true;
    }
    else
      return false;
  }
  \<close>
  The model returns the flag together with the object after the call.
\<close>

definition setValue :: "('v::ord) Cube \<Rightarrow> nat \<Rightarrow> 'v \<Rightarrow> bool \<times> 'v Cube" where
  "setValue c i val =
     (if i < length (m_data c) then
        let c1 = c\<lparr>m_data := (m_data c)[i := val]\<rparr>;
            c2 = (if val > m_maxValue c1 then c1\<lparr>m_maxValue := val\<rparr> else c1);
            c3 = (if val < m_minValue c2 then c2\<lparr>m_minValue := val\<rparr> else c2)
        in (True, c3)
      else (False, c))"

text \<open>A sequence of calls, each on the object the previous one left; the flags are dropped.\<close>

fun setValues :: "('v::ord) Cube \<Rightarrow> (nat \<times> 'v) list \<Rightarrow> 'v Cube" where
  "setValues c [] = c"
| "setValues c ((i, val) # ops) = setValues (snd (setValue c i val)) ops"

text \<open>Invariant 3 of the data model: every stored sample lies between the tracked extrema.\<close>

definition bounded :: "('v::ord) Cube \<Rightarrow> bool" where
  "bounded c = (\<forall>v \<in> set (m_data c). m_minValue c \<le> v \<and> v \<le> m_maxValue c)"

text \<open>Two small grids for examples, two samples each, all samples and both extrema zero as
  after a geometry assignment: one over the reals, one over \<open>double\<close>.\<close>

definition cube2 :: "real Cube" where
  "cube2 = \<lparr>m_data = [0, 0], m_min = (0, 0, 0), m_max = (1, 0, 0), m_spacing = (1, 0, 0),
     m_points = (2, 1, 1), m_minValue = 0, m_maxValue = 0, m_name = ''density'',
     m_cubeType = ElectronDensity, m_lock = 1\<rparr>"

definition dcube2 :: "double Cube" where
  "dcube2 = \<lparr>m_data = [Num 0, Num 0], m_min = (0, 0, 0), m_max = (1, 0, 0),
     m_spacing = (1, 0, 0), m_points = (2, 1, 1), m_minValue = Num 0, m_maxValue = Num 0,
     m_name = ''density'', m_cubeType = ElectronDensity, m_lock = 1\<rparr>"

section \<open>Operations that cube.h only declares\<close>

text \<open>
  The header declares the remaining member functions; their bodies live in the
  implementation file, which is not among the sources. The geometry assignments and the
  writes are written here from the specification (sections 3, 4.1 and 4.2), over exact
  real arithmetic. The conversions between positions and indices and the trilinear
  interpolation (\<^verbatim>\<open>closestIndex\<close>, \<^verbatim>\<open>indexVector\<close>, \<^verbatim>\<open>position\<close>, \<^verbatim>\<open>value\<close>,
  \<^verbatim>\<open>valuef\<close>) are left out: what they return is decided by the rounding of
  floating-point quotients, sums and blends and by the conversion of a floating-point
  quotient to an \<^verbatim>\<open>int\<close>, which exact arithmetic does not have.
\<close>

text \<open>The components \<^verbatim>\<open>x()\<close>, \<^verbatim>\<open>y()\<close>, \<^verbatim>\<open>z()\<close> of a \<^verbatim>\<open>Vector3\<close> or \<^verbatim>\<open>Vector3i\<close>.\<close>

fun vx :: "'a \<times> 'a \<times> 'a \<Rightarrow> 'a" where "vx (x, y, z) = x"
fun vy :: "'a \<times> 'a \<times> 'a \<Rightarrow> 'a" where "vy (x, y, z) = y"
fun vz :: "'a \<times> 'a \<times> 'a \<Rightarrow> 'a" where "vz (x, y, z) = z"

subsection \<open>Indexing\<close>

text \<open>Modelled from the spec: the linear encoding \<open>index = i\<cdot>(ny\<cdot>nz) + j\<cdot>nz + k\<close> of
  section 4.1, which the missing bodies of the indexed accessors share.\<close>

definition encode :: "Vector3i \<Rightarrow> int \<Rightarrow> int \<Rightarrow> int \<Rightarrow> int" where
  "encode dims i j k = i * (vy dims * vz dims) + j * vz dims + k"

text \<open>Modelled from the spec: the index range \<open>[0, dimensions)\<close> on the three axes.\<close>

definition inRange :: "Vector3i \<Rightarrow> int \<Rightarrow> int \<Rightarrow> int \<Rightarrow> bool" where
  "inRange dims i j k =
     (0 \<le> i \<and> i < vx dims \<and> 0 \<le> j \<and> j < vy dims \<and> 0 \<le> k \<and> k < vz dims)"

subsection \<open>The data store\<close>

text \<open>Modelled from the spec: the missing body of
  \<^verbatim>\<open>Cube::setValue(int, int, int, double)\<close>: it fails without a change for an index
  outside \<open>[0, dimensions)\<close> and otherwise goes through the bounds check and the
  extrema update of the single-index form (section 9).\<close>

definition setValue_ijk :: "real Cube \<Rightarrow> int \<Rightarrow> int \<Rightarrow> int \<Rightarrow> real \<Rightarrow> bool \<times> real Cube" where
  "setValue_ijk c i j k val =
     (if inRange (m_points c) i j k
      then setValue c (nat (encode (m_points c) i j k)) val
      else (False, c))"

text \<open>Modelled from the spec: the full scan that recomputes the extrema in the missing
  bodies of \<^verbatim>\<open>setData\<close> and \<^verbatim>\<open>addData\<close>. With no sample there is nothing to scan and
  the extrema stay.\<close>

definition rescan :: "real Cube \<Rightarrow> real Cube" where
  "rescan c =
     (case m_data c of
        [] \<Rightarrow> c
      | v # vs \<Rightarrow> c\<lparr>m_minValue := fold min vs v, m_maxValue := fold max vs v\<rparr>)"

text \<open>Modelled from the spec: the missing body of \<^verbatim>\<open>Cube::setData\<close>.\<close>

definition setData :: "real Cube \<Rightarrow> real list \<Rightarrow> bool \<times> real Cube" where
  "setData c vals =
     (if length vals \<noteq> length (m_data c) then (False, c)
      else (True, rescan (c\<lparr>m_data := vals\<rparr>)))"

text \<open>Modelled from the spec: the missing body of \<^verbatim>\<open>Cube::addData\<close>:
  \<open>samples[n] += values[n]\<close> for all \<open>n\<close>, then the scan.\<close>

definition addData :: "real Cube \<Rightarrow> real list \<Rightarrow> bool \<times> real Cube" where
  "addData c vals =
     (if length vals \<noteq> length (m_data c) then (False, c)
      else (True, rescan (c\<lparr>m_data := map2 (+) (m_data c) vals\<rparr>)))"

subsection \<open>Geometry assignment\<close>

text \<open>Modelled from the spec: what every geometry-defining operation does on success
  (section 3, lifecycle): it replaces origin, extent, spacing and dimensions, reallocates
  the samples filled with zero, and resets the extrema to the baseline zero.\<close>

definition assignGeometry :: "real Cube \<Rightarrow> Vector3 \<Rightarrow> Vector3 \<Rightarrow> Vector3 \<Rightarrow> Vector3i \<Rightarrow> real Cube" where
  "assignGeometry c lo hi sp dims =
     c\<lparr>m_data := replicate (nat (vx dims * vy dims * vz dims)) 0,
       m_min := lo, m_max := hi, m_spacing := sp, m_points := dims,
       m_minValue := 0, m_maxValue := 0\<rparr>"

text \<open>Modelled from the spec: the spacing on one axis in the points-based form:
  \<open>(extent - origin) / max(dimension - 1, 1)\<close>, defined as 0 on an axis with dimension
  \<open>\<le> 1\<close>.\<close>

definition axisSpacing :: "real \<Rightarrow> real \<Rightarrow> int \<Rightarrow> real" where
  "axisSpacing lo hi n = (if n \<le> 1 then 0 else (hi - lo) / of_int (max (n - 1) 1))"

text \<open>Modelled from the spec: the missing body of
  \<^verbatim>\<open>Cube::setLimits(const Vector3 &, const Vector3 &, const Vector3i &)\<close>.\<close>

definition setLimits_points :: "real Cube \<Rightarrow> Vector3 \<Rightarrow> Vector3 \<Rightarrow> Vector3i \<Rightarrow> bool \<times> real Cube" where
  "setLimits_points c lo hi dims =
     (if vx dims < 0 \<or> vy dims < 0 \<or> vz dims < 0
         \<or> vx hi < vx lo \<or> vy hi < vy lo \<or> vz hi < vz lo
      then (False, c)
      else (True, assignGeometry c lo hi
              (axisSpacing (vx lo) (vx hi) (vx dims),
               axisSpacing (vy lo) (vy hi) (vy dims),
               axisSpacing (vz lo) (vz hi) (vz dims)) dims))"

text \<open>Modelled from the spec: the missing body of
  \<^verbatim>\<open>Cube::setLimits(const Vector3 &, const Vector3 &, double)\<close>: dimensions
  \<open>round((extent - origin) / spacing) + 1\<close>, then the points-based form.\<close>

definition setLimits_spacing :: "real Cube \<Rightarrow> Vector3 \<Rightarrow> Vector3 \<Rightarrow> real \<Rightarrow> bool \<times> real Cube" where
  "setLimits_spacing c lo hi sp =
     (if sp \<le> 0 \<or> vx hi < vx lo \<or> vy hi < vy lo \<or> vz hi < vz lo
      then (False, c)
      else setLimits_points c lo hi
             (round ((vx hi - vx lo) / sp) + 1,
              round ((vy hi - vy lo) / sp) + 1,
              round ((vz hi - vz lo) / sp) + 1))"

text \<open>Modelled from the spec: the missing body of
  \<^verbatim>\<open>Cube::setLimits(const Vector3 &, const Vector3i &, double)\<close>: extent
  \<open>origin + spacing \<odot> (dimensions - 1)\<close>.\<close>

definition setLimits_dim :: "real Cube \<Rightarrow> Vector3 \<Rightarrow> Vector3i \<Rightarrow> real \<Rightarrow> bool \<times> real Cube" where
  "setLimits_dim c lo dims sp =
     (if vx dims < 0 \<or> vy dims < 0 \<or> vz dims < 0 \<or> sp \<le> 0
      then (False, c)
      else (True, assignGeometry c lo
              (vx lo + sp * of_int (vx dims - 1),
               vy lo + sp * of_int (vy dims - 1),
               vz lo + sp * of_int (vz dims - 1))
              (sp, sp, sp) dims))"

text \<open>Modelled from the spec: the missing body of \<^verbatim>\<open>Cube::setLimits(const Cube &)\<close>: the
  geometry fields are copied, the samples are not.\<close>

definition setLimits_cube :: "real Cube \<Rightarrow> real Cube \<Rightarrow> bool \<times> real Cube" where
  "setLimits_cube c other =
     (True, assignGeometry c (m_min other) (m_max other) (m_spacing other) (m_points other))"

text \<open>Modelled from the spec: the molecule, of which the header has only the forward
  declaration: its atoms, each a position and a radius where one is available.\<close>

type_synonym Atom = "Vector3 \<times> real option"
type_synonym Molecule = "Atom list"

text \<open>Modelled from the spec: the radius of an atom where one is available, else none is
  accounted for; the least and the greatest of the coordinates of a non-empty molecule.\<close>

definition radius :: "Atom \<Rightarrow> real" where
  "radius a = (case snd a of None \<Rightarrow> 0 | Some r \<Rightarrow> r)"

fun least :: "real list \<Rightarrow> real" where
  "least [] = 0"
| "least (v # vs) = fold min vs v"

fun greatest :: "real list \<Rightarrow> real" where
  "greatest [] = 0"
| "greatest (v # vs) = fold max vs v"

text \<open>Modelled from the spec: the missing body of
  \<^verbatim>\<open>Cube::setLimits(const Molecule &, double, double)\<close>: the bounding box of the atoms
  (with their radii), padded on every side, then the spacing-based form; no atoms, no
  grid.\<close>

definition setLimits_molecule :: "real Cube \<Rightarrow> Molecule \<Rightarrow> real \<Rightarrow> real \<Rightarrow> bool \<times> real Cube" where
  "setLimits_molecule c mol sp padding =
     (if mol = [] then (False, c)
      else setLimits_spacing c
             (least (map (\<lambda>a. vx (fst a) - radius a) mol) - padding,
              least (map (\<lambda>a. vy (fst a) - radius a) mol) - padding,
              least (map (\<lambda>a. vz (fst a) - radius a) mol) - padding)
             (greatest (map (\<lambda>a. vx (fst a) + radius a) mol) + padding,
              greatest (map (\<lambda>a. vy (fst a) + radius a) mol) + padding,
              greatest (map (\<lambda>a. vz (fst a) + radius a) mol) + padding)
             sp)"

subsection \<open>Invariants and runs\<close>

text \<open>Invariant 1 of the data model: \<open>samples.length = nx\<cdot>ny\<cdot>nz\<close>.\<close>

definition sized :: "real Cube \<Rightarrow> bool" where
  "sized c =
     (int (length (m_data c)) = vx (m_points c) * vy (m_points c) * vz (m_points c))"

text \<open>The state a geometry assignment leaves: the length invariant, every sample zero, both
  extrema at the baseline.\<close>

definition fresh :: "real Cube \<Rightarrow> bool" where
  "fresh c =
     (sized c \<and> m_data c = replicate (length (m_data c)) 0
      \<and> m_minValue c = 0 \<and> m_maxValue c = 0)"

text \<open>What a full scan establishes: with at least one sample, the extrema are the least
  and the greatest sample.\<close>

definition exactExtrema :: "real Cube \<Rightarrow> bool" where
  "exactExtrema c =
     (m_data c \<noteq> [] \<longrightarrow>
        m_minValue c = Min (set (m_data c)) \<and> m_maxValue c = Max (set (m_data c)))"

text \<open>The writing operations that are not geometry assignments, and a run of them.\<close>

datatype writeOp =
    SetValue nat real
  | SetValueIJK int int int real
  | SetData "real list"
  | AddData "real list"

fun applyWrite :: "real Cube \<Rightarrow> writeOp \<Rightarrow> real Cube" where
  "applyWrite c (SetValue n val) = snd (setValue c n val)"
| "applyWrite c (SetValueIJK i j k val) = snd (setValue_ijk c i j k val)"
| "applyWrite c (SetData vals) = snd (setData c vals)"
| "applyWrite c (AddData vals) = snd (addData c vals)"

fun applyWrites :: "real Cube \<Rightarrow> writeOp list \<Rightarrow> real Cube" where
  "applyWrites c [] = c"
| "applyWrites c (w # ws) = applyWrites (applyWrite c w) ws"

text \<open>Modelled from the spec: the grid the constructor (declared in the header, body
  missing) leaves: empty, with dimensions \<open>(0, 0, 0)\<close> and no samples (section 3,
  lifecycle).\<close>

definition emptyCube :: "real Cube" where
  "emptyCube = \<lparr>m_data = [], m_min = (0, 0, 0), m_max = (0, 0, 0), m_spacing = (0, 0, 0),
     m_points = (0, 0, 0), m_minValue = 0, m_maxValue = 0, m_name = [],
     m_cubeType = NoType, m_lock = 1\<rparr>"

text \<open>A grid of 2 x 2 x 2 points on the unit cube holding the samples 0 to 7.\<close>

definition cube222 :: "real Cube" where
  "cube222 = snd (setData (snd (setLimits_points emptyCube (0, 0, 0) (1, 1, 1) (2, 2, 2)))
                    [0, 1, 2, 3, 4, 5, 6, 7])"

section \<open>Properties of the single-index write\<close>

lemma setValue_eq:
  "i < length (m_data c) \<Longrightarrow>
     setValue c i val =
       (True, c\<lparr>m_data := (m_data c)[i := val],
                m_maxValue := (if m_maxValue c < val then val else m_maxValue c),
                m_minValue := (if val < m_minValue c then val else m_minValue c)\<rparr>)"
  by (simp add: setValue_def Let_def)

lemma setValue_in_range:
  fixes c :: "('v::linorder) Cube"
  shows "i < length (m_data c) \<Longrightarrow>
     setValue c i val =
       (True, c\<lparr>m_data := (m_data c)[i := val],
                m_maxValue := max (m_maxValue c) val,
                m_minValue := min (m_minValue c) val\<rparr>)"
  by (auto simp: setValue_eq max_def min_def)

lemma setValue_out_of_range:
  "\<not> i < length (m_data c) \<Longrightarrow> setValue c i val = (False, c)"
  by (simp add: setValue_def)

text \<open>
  C10. A successful \<^verbatim>\<open>setValue(i, v)\<close> changes only \<^verbatim>\<open>m_data[i]\<close>, \<^verbatim>\<open>m_minValue\<close> and
  \<^verbatim>\<open>m_maxValue\<close>: the geometry (\<^verbatim>\<open>m_min\<close>, \<^verbatim>\<open>m_max\<close>, \<^verbatim>\<open>m_spacing\<close>, \<^verbatim>\<open>m_points\<close>),
  the number of samples, every sample at another index, the name, the type tag and the
  lock pointer are as before. A failed call (\<^verbatim>\<open>i \<ge> m_data.size()\<close>) returns the whole
  object unchanged.
\<close>

theorem setValue_frame:
  "(i < length (m_data c) \<longrightarrow>
      fst (setValue c i val) \<and>
      m_min (snd (setValue c i val)) = m_min c \<and>
      m_max (snd (setValue c i val)) = m_max c \<and>
      m_spacing (snd (setValue c i val)) = m_spacing c \<and>
      m_points (snd (setValue c i val)) = m_points c \<and>
      m_name (snd (setValue c i val)) = m_name c \<and>
      m_cubeType (snd (setValue c i val)) = m_cubeType c \<and>
      m_lock (snd (setValue c i val)) = m_lock c \<and>
      length (m_data (snd (setValue c i val))) = length (m_data c) \<and>
      (\<forall>n. n \<noteq> i \<longrightarrow> m_data (snd (setValue c i val)) ! n = m_data c ! n) \<and>
      snd (setValue c i val) =
        c\<lparr>m_data := m_data (snd (setValue c i val)),
          m_minValue := m_minValue (snd (setValue c i val)),
          m_maxValue := m_maxValue (snd (setValue c i val))\<rparr>) \<and>
   (\<not> i < length (m_data c) \<longrightarrow> setValue c i val = (False, c))"
  by (simp add: setValue_eq setValue_out_of_range)

theorem setValue_frame_witness:
  "fst (setValue cube2 1 5) \<and>
   m_points (snd (setValue cube2 1 5)) = (2, 1, 1) \<and>
   m_name (snd (setValue cube2 1 5)) = ''density'' \<and>
   m_lock (snd (setValue cube2 1 5)) = 1 \<and>
   m_data (snd (setValue cube2 1 5)) ! 0 = 0 \<and>
   setValue cube2 2 5 = (False, cube2)"
  using setValue_frame [of 1 cube2 5] setValue_frame [of 2 cube2 5]
  by (simp add: cube2_def)

subsection \<open>Extrema under a run of writes\<close>

text \<open>The comparisons of \<open>double\<close>: an order on everything but NaN.\<close>

lemma dle_refl: "x \<noteq> NaN \<Longrightarrow> x \<le> (x::double)"
  by (simp add: less_eq_double_def)

lemma dless_imp_le: "x < y \<Longrightarrow> x \<le> (y::double)"
  by (simp add: less_eq_double_def less_double_def)

lemma dless_not_NaN: "x < y \<Longrightarrow> x \<noteq> NaN \<and> y \<noteq> (NaN::double)"
  by (cases x; cases y; simp add: less_double_def)

lemma dle_not_NaN: "x \<le> y \<Longrightarrow> x \<noteq> NaN \<and> y \<noteq> (NaN::double)"
  by (cases x; cases y; simp add: less_eq_double_def)

lemma dle_trans: "x \<le> y \<Longrightarrow> y \<le> z \<Longrightarrow> x \<le> (z::double)"
  by (cases x; cases y; cases z; auto simp: less_eq_double_def)

lemma dle_total: "x \<noteq> NaN \<Longrightarrow> y \<noteq> NaN \<Longrightarrow> \<not> x < y \<Longrightarrow> y \<le> (x::double)"
  by (cases x; cases y; auto simp: less_eq_double_def less_double_def)

text \<open>One call on a grid of \<open>double\<close> samples.\<close>

lemma setValue_numeric:
  fixes c :: "double Cube"
  assumes "m_minValue c \<noteq> NaN" "m_maxValue c \<noteq> NaN"
  shows "m_minValue (snd (setValue c i val)) \<noteq> NaN \<and> m_maxValue (snd (setValue c i val)) \<noteq> NaN"
proof (cases "i < length (m_data c)")
  case True
  with assms dless_not_NaN [of val "m_minValue c"] dless_not_NaN [of "m_maxValue c" val]
  show ?thesis by (simp add: setValue_eq)
next
  case False
  with assms show ?thesis by (simp add: setValue_out_of_range)
qed

lemma setValue_widens:
  fixes c :: "double Cube"
  assumes "m_minValue c \<noteq> NaN" "m_maxValue c \<noteq> NaN"
  shows "m_minValue (snd (setValue c i val)) \<le> m_minValue c \<and>
         m_maxValue c \<le> m_maxValue (snd (setValue c i val))"
proof (cases "i < length (m_data c)")
  case True
  with assms show ?thesis by (simp add: setValue_eq dle_refl dless_imp_le)
next
  case False
  with assms show ?thesis by (simp add: setValue_out_of_range dle_refl)
qed

lemma setValue_covers:
  fixes c :: "double Cube"
  assumes "m_minValue c \<noteq> NaN" "m_maxValue c \<noteq> NaN" "val \<noteq> NaN" "i < length (m_data c)"
  shows "m_minValue (snd (setValue c i val)) \<le> val \<and>
         val \<le> m_maxValue (snd (setValue c i val))"
  using assms by (simp add: setValue_eq dle_refl dle_total)

lemma bounded_numeric:
  fixes c :: "double Cube"
  assumes "bounded c" "m_data c \<noteq> []"
  shows "m_minValue c \<noteq> NaN \<and> m_maxValue c \<noteq> NaN"
proof -
  from assms(2) obtain v where "v \<in> set (m_data c)" by (cases "m_data c") auto
  with assms(1) have "m_minValue c \<le> v" "v \<le> m_maxValue c" by (simp_all add: bounded_def)
  then show ?thesis using dle_not_NaN by blast
qed

lemma setValue_bounded:
  fixes c :: "double Cube"
  assumes "bounded c" "val \<noteq> NaN"
  shows "bounded (snd (setValue c i val))"
proof (cases "i < length (m_data c)")
  case True
  then have ne: "m_data c \<noteq> []" by auto
  note n = bounded_numeric [OF assms(1) ne]
  let ?d = "snd (setValue c i val)"
  have w: "m_minValue ?d \<le> m_minValue c" "m_maxValue c \<le> m_maxValue ?d"
    using setValue_widens n by blast+
  have k: "m_minValue ?d \<le> val" "val \<le> m_maxValue ?d"
    using setValue_covers n assms(2) True by blast+
  have "m_minValue ?d \<le> v \<and> v \<le> m_maxValue ?d" if "v \<in> set (m_data ?d)" for v
  proof -
    from that True have "v \<in> set ((m_data c)[i := val])" by (simp add: setValue_eq)
    then have "v = val \<or> v \<in> set (m_data c)"
      using set_update_subset_insert [of "m_data c" i val] by auto
    then show ?thesis
    proof
      assume "v = val"
      with k show ?thesis by simp
    next
      assume "v \<in> set (m_data c)"
      with assms(1) have "m_minValue c \<le> v" "v \<le> m_maxValue c" by (simp_all add: bounded_def)
      with w show ?thesis by (blast intro: dle_trans)
    qed
  qed
  then show ?thesis by (simp add: bounded_def)
next
  case False
  with assms(1) show ?thesis by (simp add: setValue_out_of_range)
qed

text \<open>A grid whose samples and extrema are all zero, as a geometry assignment is specified
  to leave it, has its samples between its extrema.\<close>

lemma zero_grid_bounded:
  fixes c :: "double Cube"
  assumes "\<forall>v \<in> set (m_data c). v = Num 0" "m_minValue c = Num 0" "m_maxValue c = Num 0"
  shows "bounded c"
  using assms by (auto simp: bounded_def less_eq_double_def)

text \<open>Runs of calls.\<close>

lemma setValues_append: "setValues c (xs @ ys) = setValues (setValues c xs) ys"
  by (induction c xs rule: setValues.induct) simp_all

lemma setValues_numeric:
  fixes c :: "double Cube"
  shows "m_minValue c \<noteq> NaN \<and> m_maxValue c \<noteq> NaN \<Longrightarrow>
         m_minValue (setValues c ops) \<noteq> NaN \<and> m_maxValue (setValues c ops) \<noteq> NaN"
proof (induction c ops rule: setValues.induct)
  case (1 c)
  then show ?case by simp
next
  case (2 c i val ops)
  from "2.prems" have "m_minValue (snd (setValue c i val)) \<noteq> NaN \<and>
      m_maxValue (snd (setValue c i val)) \<noteq> NaN"
    by (simp add: setValue_numeric)
  then show ?case using "2.IH" by simp
qed

lemma setValues_widens:
  fixes c :: "double Cube"
  shows "m_minValue c \<noteq> NaN \<and> m_maxValue c \<noteq> NaN \<Longrightarrow>
         m_minValue (setValues c ops) \<le> m_minValue c \<and>
         m_maxValue c \<le> m_maxValue (setValues c ops)"
proof (induction c ops rule: setValues.induct)
  case (1 c)
  then show ?case by (simp add: dle_refl)
next
  case (2 c i val ops)
  let ?d = "snd (setValue c i val)"
  from "2.prems" have n: "m_minValue ?d \<noteq> NaN \<and> m_maxValue ?d \<noteq> NaN"
    by (simp add: setValue_numeric)
  from "2.prems" have s: "m_minValue ?d \<le> m_minValue c \<and> m_maxValue c \<le> m_maxValue ?d"
    by (simp add: setValue_widens)
  from "2.IH" [OF n] s show ?case by (auto intro: dle_trans)
qed

lemma setValues_bounded:
  fixes c :: "double Cube"
  shows "bounded c \<Longrightarrow> \<forall>w \<in> set ops. snd w \<noteq> NaN \<Longrightarrow> bounded (setValues c ops)"
  by (induction c ops rule: setValues.induct) (simp_all add: setValue_bounded)

text \<open>
  C1 (amended). On a grid whose samples and extrema are all zero (the state after a
  geometry assignment), and on any grid whose samples lie between its extrema, every
  sequence of \<^verbatim>\<open>setValue\<close> calls that writes no NaN leaves \<open>minValue \<le> v \<le> maxValue\<close> for
  every stored sample \<open>v\<close>. On a grid whose extrema are not NaN, along every sequence of
  calls \<open>maxValue\<close> never decreases and \<open>minValue\<close> never increases, and a value other than
  NaN written by a successful call stays between them however the cell is overwritten
  later.
\<close>

theorem setValues_extrema:
  fixes c :: "double Cube"
  shows
  "((\<forall>v \<in> set (m_data c). v = Num 0) \<and> m_minValue c = Num 0 \<and> m_maxValue c = Num 0 \<and>
    (\<forall>w \<in> set ops. snd w \<noteq> NaN) \<longrightarrow> bounded (setValues c ops)) \<and>
   (bounded c \<and> (\<forall>w \<in> set ops. snd w \<noteq> NaN) \<longrightarrow> bounded (setValues c ops)) \<and>
   (m_minValue c \<noteq> NaN \<and> m_maxValue c \<noteq> NaN \<longrightarrow>
      m_minValue (setValues c (ops @ later)) \<le> m_minValue (setValues c ops) \<and>
      m_maxValue (setValues c ops) \<le> m_maxValue (setValues c (ops @ later))) \<and>
   (m_minValue c \<noteq> NaN \<and> m_maxValue c \<noteq> NaN \<and> val \<noteq> NaN \<and>
    i < length (m_data (setValues c ops)) \<longrightarrow>
      m_minValue (setValues c (ops @ (i, val) # later)) \<le> val \<and>
      val \<le> m_maxValue (setValues c (ops @ (i, val) # later)))"
proof -
  let ?d = "setValues c ops"
  have a: "bounded c \<and> (\<forall>w \<in> set ops. snd w \<noteq> NaN) \<longrightarrow> bounded ?d"
    by (simp add: setValues_bounded)
  have z: "(\<forall>v \<in> set (m_data c). v = Num 0) \<and> m_minValue c = Num 0 \<and> m_maxValue c = Num 0 \<and>
      (\<forall>w \<in> set ops. snd w \<noteq> NaN) \<longrightarrow> bounded ?d"
    using zero_grid_bounded [of c] a by blast
  have b: "m_minValue (setValues c (ops @ later)) \<le> m_minValue ?d \<and>
           m_maxValue ?d \<le> m_maxValue (setValues c (ops @ later))"
    if n: "m_minValue c \<noteq> NaN \<and> m_maxValue c \<noteq> NaN"
  proof -
    have "m_minValue ?d \<noteq> NaN \<and> m_maxValue ?d \<noteq> NaN"
      using n by (rule setValues_numeric)
    then have "m_minValue (setValues ?d later) \<le> m_minValue ?d \<and>
        m_maxValue ?d \<le> m_maxValue (setValues ?d later)"
      by (rule setValues_widens)
    then show ?thesis by (simp add: setValues_append)
  qed
  have k: "m_minValue (setValues c (ops @ (i, val) # later)) \<le> val \<and>
           val \<le> m_maxValue (setValues c (ops @ (i, val) # later))"
    if n: "m_minValue c \<noteq> NaN \<and> m_maxValue c \<noteq> NaN" and v: "val \<noteq> NaN"
      and r: "i < length (m_data ?d)"
  proof -
    let ?e = "snd (setValue ?d i val)"
    have m: "m_minValue ?d \<noteq> NaN \<and> m_maxValue ?d \<noteq> NaN"
      using n by (rule setValues_numeric)
    then have e: "m_minValue ?e \<noteq> NaN \<and> m_maxValue ?e \<noteq> NaN"
      by (simp add: setValue_numeric)
    from m v r have "m_minValue ?e \<le> val \<and> val \<le> m_maxValue ?e"
      by (simp add: setValue_covers)
    moreover from e have "m_minValue (setValues ?e later) \<le> m_minValue ?e \<and>
        m_maxValue ?e \<le> m_maxValue (setValues ?e later)"
      by (rule setValues_widens)
    ultimately show ?thesis
      by (auto simp: setValues_append intro: dle_trans)
  qed
  from z a b k show ?thesis by blast
qed

theorem setValues_extrema_witness:
  "bounded dcube2 \<and>
   bounded (setValues dcube2 [(0, Num 5), (1, Num (-3)), (0, Num 1)]) \<and>
   m_data (setValues dcube2 [(0, Num 5), (1, Num (-3)), (0, Num 1)]) = [Num 1, Num (-3)] \<and>
   m_maxValue (setValues dcube2 [(0, Num 5)]) = Num 5 \<and>
   m_maxValue (setValues dcube2 [(0, Num 5), (1, Num (-3)), (0, Num 1)]) = Num 5 \<and>
   m_minValue (setValues dcube2 [(0, Num 5), (1, Num (-3)), (0, Num 1)]) = Num (-3) \<and>
   m_maxValue (setValues dcube2 [(0, Num 5)])
     \<le> m_maxValue (setValues dcube2 ([(0, Num 5)] @ [(1, Num (-3)), (0, Num 1)])) \<and>
   Num 5 \<le> m_maxValue (setValues dcube2 ([] @ (0, Num 5) # [(1, Num (-3)), (0, Num 1)]))"
proof -
  have b: "bounded dcube2" by (simp add: bounded_def dcube2_def less_eq_double_def)
  have n: "m_minValue dcube2 \<noteq> NaN \<and> m_maxValue dcube2 \<noteq> NaN" by (simp add: dcube2_def)
  have w: "\<forall>w \<in> set [(0::nat, Num 5), (1, Num (-3)), (0, Num 1)]. snd w \<noteq> NaN" by simp
  have r: "0 < length (m_data (setValues dcube2 []))" by (simp add: dcube2_def)
  have z: "(\<forall>v \<in> set (m_data dcube2). v = Num 0) \<and> m_minValue dcube2 = Num 0 \<and>
      m_maxValue dcube2 = Num 0" by (simp add: dcube2_def)
  have v: "m_data (setValues dcube2 [(0, Num 5), (1, Num (-3)), (0, Num 1)]) = [Num 1, Num (-3)]"
    "m_maxValue (setValues dcube2 [(0, Num 5)]) = Num 5"
    "m_maxValue (setValues dcube2 [(0, Num 5), (1, Num (-3)), (0, Num 1)]) = Num 5"
    "m_minValue (setValues dcube2 [(0, Num 5), (1, Num (-3)), (0, Num 1)]) = Num (-3)"
    by (simp_all add: dcube2_def setValue_def less_double_def)
  from b n w r z v
    setValues_extrema [of dcube2 "[(0, Num 5), (1, Num (-3)), (0, Num 1)]" "[]" "Num 0" 0]
    setValues_extrema [of dcube2 "[(0, Num 5)]" "[(1, Num (-3)), (0, Num 1)]" "Num 0" 0]
    setValues_extrema [of dcube2 "[]" "[(1, Num (-3)), (0, Num 1)]" "Num 5" 0]
  show ?thesis by blast
qed

text \<open>
  As stated for every sequence the claim fails: one in-range call that writes NaN stores
  it, neither comparison holds, both extrema stay, and the stored NaN is not between
  them.
\<close>

theorem setValues_extrema_counterexample:
  "bounded dcube2 \<and>
   fst (setValue dcube2 0 NaN) \<and>
   m_data (setValues dcube2 [(0, NaN)]) = [NaN, Num 0] \<and>
   m_minValue (setValues dcube2 [(0, NaN)]) = Num 0 \<and>
   m_maxValue (setValues dcube2 [(0, NaN)]) = Num 0 \<and>
   \<not> m_minValue (setValues dcube2 [(0, NaN)]) \<le> m_data (setValues dcube2 [(0, NaN)]) ! 0 \<and>
   \<not> m_data (setValues dcube2 [(0, NaN)]) ! 0 \<le> m_maxValue (setValues dcube2 [(0, NaN)]) \<and>
   \<not> bounded (setValues dcube2 [(0, NaN)])"
  by (simp add: dcube2_def setValue_def bounded_def less_double_def less_eq_double_def)

section \<open>Indexed writes\<close>

lemma cube222_eq:
  "cube222 = \<lparr>m_data = [0, 1, 2, 3, 4, 5, 6, 7], m_min = (0, 0, 0), m_max = (1, 1, 1),
     m_spacing = (1, 1, 1), m_points = (2, 2, 2), m_minValue = 0, m_maxValue = 7,
     m_name = [], m_cubeType = NoType, m_lock = 1\<rparr>"
  by (simp add: cube222_def setData_def setLimits_points_def assignGeometry_def axisSpacing_def
      rescan_def emptyCube_def eval_nat_numeral)

lemma lattice_bound:
  fixes a n r m :: int
  assumes "0 \<le> a" "a < n" "0 \<le> r" "r < m"
  shows "0 \<le> a * m + r \<and> a * m + r < n * m"
proof -
  from assms have m: "0 \<le> m" by simp
  from assms have "a + 1 \<le> n" by simp
  then have "(a + 1) * m \<le> n * m" using m by (rule mult_right_mono)
  then have "a * m + m \<le> n * m" by (simp add: algebra_simps)
  moreover from assms m have "0 \<le> a * m" by simp
  ultimately show ?thesis using assms by linarith
qed

lemma encode_bound:
  assumes "inRange dims i j k"
  shows "0 \<le> encode dims i j k \<and> encode dims i j k < vx dims * vy dims * vz dims"
proof -
  from assms have a: "0 \<le> j * vz dims + k \<and> j * vz dims + k < vy dims * vz dims"
    by (intro lattice_bound) (simp_all add: inRange_def)
  from assms a have "0 \<le> i * (vy dims * vz dims) + (j * vz dims + k) \<and>
      i * (vy dims * vz dims) + (j * vz dims + k) < vx dims * (vy dims * vz dims)"
    by (intro lattice_bound) (simp_all add: inRange_def)
  then show ?thesis by (simp add: encode_def algebra_simps)
qed

lemma encode_index:
  assumes "sized c" "inRange (m_points c) i j k"
  shows "nat (encode (m_points c) i j k) < length (m_data c)"
  using encode_bound [OF assms(2)] assms(1) by (simp add: sized_def nat_less_iff)

text \<open>
  C2. \<^verbatim>\<open>setValue(linearIndex, v)\<close> returns false and changes nothing when the index is not
  below \<^verbatim>\<open>m_data.size()\<close>, and \<^verbatim>\<open>setValue(i, j, k, v)\<close> does so when \<open>(i, j, k)\<close> is
  outside \<open>[0, dimensions)\<close>. In range (for the three-index form on a grid whose sample
  count is \<open>nx\<cdot>ny\<cdot>nz\<close>) the call returns true, writes \<open>v\<close> into the addressed sample and
  leaves \<open>maxValue\<close> at the larger of its old value and \<open>v\<close>, \<open>minValue\<close> at the smaller.
\<close>

theorem setValue_checked:
  "(\<not> n < length (m_data c) \<longrightarrow> setValue c n val = (False, c)) \<and>
   (n < length (m_data c) \<longrightarrow>
      setValue c n val =
        (True, c\<lparr>m_data := (m_data c)[n := val],
                 m_maxValue := max (m_maxValue c) val,
                 m_minValue := min (m_minValue c) val\<rparr>)) \<and>
   (\<not> inRange (m_points c) i j k \<longrightarrow> setValue_ijk c i j k val = (False, c)) \<and>
   (sized c \<and> inRange (m_points c) i j k \<longrightarrow>
      nat (encode (m_points c) i j k) < length (m_data c) \<and>
      setValue_ijk c i j k val =
        (True, c\<lparr>m_data := (m_data c)[nat (encode (m_points c) i j k) := val],
                 m_maxValue := max (m_maxValue c) val,
                 m_minValue := min (m_minValue c) val\<rparr>))"
  by (simp add: setValue_in_range setValue_out_of_range setValue_ijk_def encode_index)

theorem setValue_checked_witness:
  "setValue cube222 8 1 = (False, cube222) \<and>
   fst (setValue cube222 7 9) \<and>
   m_data (snd (setValue cube222 7 9)) = [0, 1, 2, 3, 4, 5, 6, 9] \<and>
   m_maxValue (snd (setValue cube222 7 9)) = 9 \<and>
   setValue_ijk cube222 2 0 0 1 = (False, cube222) \<and>
   sized cube222 \<and> inRange (m_points cube222) 1 0 1 \<and>
   fst (setValue_ijk cube222 1 0 1 (-1)) \<and>
   m_data (snd (setValue_ijk cube222 1 0 1 (-1))) = [0, 1, 2, 3, 4, -1, 6, 7] \<and>
   m_minValue (snd (setValue_ijk cube222 1 0 1 (-1))) = -1"
proof -
  have s: "sized cube222" by (simp add: cube222_eq sized_def)
  have r: "inRange (m_points cube222) 1 0 1" by (simp add: cube222_eq inRange_def)
  have o: "\<not> inRange (m_points cube222) 2 0 0" by (simp add: cube222_eq inRange_def)
  have e: "nat (encode (m_points cube222) 1 0 1) = 5" by (simp add: cube222_eq encode_def)
  from s r o setValue_checked [of 8 cube222 1 2 0 0] setValue_checked [of 7 cube222 9 1 0 1]
    setValue_checked [of 7 cube222 "-1" 1 0 1]
  show ?thesis by (simp add: e) (simp add: cube222_eq)
qed

section \<open>Geometry assignment\<close>

lemma assignGeometry_fresh:
  "0 \<le> vx dims * vy dims * vz dims \<Longrightarrow> fresh (assignGeometry c lo hi sp dims)"
  by (simp add: fresh_def sized_def assignGeometry_def)

lemma dims_product_nonneg:
  fixes a b c :: int
  shows "0 \<le> a \<Longrightarrow> 0 \<le> b \<Longrightarrow> 0 \<le> c \<Longrightarrow> 0 \<le> a * b * c"
  by simp

lemma setLimits_points_fresh:
  "fst (setLimits_points c lo hi dims) \<Longrightarrow> fresh (snd (setLimits_points c lo hi dims))"
  by (auto simp: setLimits_points_def not_less split: if_splits
      intro!: assignGeometry_fresh dims_product_nonneg)

lemma setLimits_spacing_fresh:
  "fst (setLimits_spacing c lo hi sp) \<Longrightarrow> fresh (snd (setLimits_spacing c lo hi sp))"
  by (auto simp: setLimits_spacing_def setLimits_points_fresh split: if_splits)

lemma setLimits_dim_fresh:
  "fst (setLimits_dim c lo dims sp) \<Longrightarrow> fresh (snd (setLimits_dim c lo dims sp))"
  by (auto simp: setLimits_dim_def not_less split: if_splits
      intro!: assignGeometry_fresh dims_product_nonneg)

lemma setLimits_cube_fresh:
  "sized other \<Longrightarrow> fst (setLimits_cube c other) \<and> fresh (snd (setLimits_cube c other))"
proof -
  assume "sized other"
  then have "0 \<le> vx (m_points other) * vy (m_points other) * vz (m_points other)"
    unfolding sized_def by (metis of_nat_0_le_iff)
  then show ?thesis by (simp add: setLimits_cube_def assignGeometry_fresh)
qed

lemma setLimits_molecule_fresh:
  "fst (setLimits_molecule c mol sp padding) \<Longrightarrow>
     fresh (snd (setLimits_molecule c mol sp padding))"
  by (auto simp: setLimits_molecule_def setLimits_spacing_fresh split: if_splits)

lemma rescan_frame: "m_data (rescan c) = m_data c \<and> m_points (rescan c) = m_points c"
  by (simp add: rescan_def split: list.splits)

lemma applyWrite_sized:
  "sized c \<Longrightarrow> sized (applyWrite c w) \<and> m_points (applyWrite c w) = m_points c"
proof (cases w)
  case (SetValue n val)
  assume "sized c"
  then show ?thesis
    by (cases "n < length (m_data c)")
      (simp_all add: SetValue setValue_in_range setValue_out_of_range sized_def)
next
  case (SetValueIJK i j k val)
  assume "sized c"
  then show ?thesis
    by (cases "nat (encode (m_points c) i j k) < length (m_data c)")
      (simp_all add: SetValueIJK setValue_ijk_def setValue_in_range setValue_out_of_range sized_def)
next
  case (SetData vals)
  assume "sized c"
  then show ?thesis
    by (simp add: SetData setData_def sized_def rescan_frame)
next
  case (AddData vals)
  assume "sized c"
  then show ?thesis
    by (simp add: AddData addData_def sized_def rescan_frame)
qed

lemma applyWrites_sized:
  "sized c \<Longrightarrow> sized (applyWrites c ws) \<and> m_points (applyWrites c ws) = m_points c"
proof (induction c ws rule: applyWrites.induct)
  case (1 c)
  then show ?case by simp
next
  case (2 c w ws)
  from applyWrite_sized [OF "2.prems"] "2.IH" show ?case by simp
qed

text \<open>
  C5. \<^verbatim>\<open>setLimits(origin, extent, dimensions)\<close> fails and returns the grid as it was when
  a component of the dimensions is negative or the extent is below the origin on an
  axis. Otherwise it succeeds, stores origin, extent and dimensions, sets the spacing on
  each axis to \<open>(extent - origin) / max(dimension - 1, 1)\<close>, and to 0 on an axis with
  dimension \<open>\<le> 1\<close> (the divisor is never zero), allocates \<open>nx\<cdot>ny\<cdot>nz\<close> samples, all zero, and
  resets both extrema to zero.
\<close>

theorem setLimits_points_spec:
  "(vx dims < 0 \<or> vy dims < 0 \<or> vz dims < 0 \<or> vx hi < vx lo \<or> vy hi < vy lo \<or> vz hi < vz lo
      \<longrightarrow> setLimits_points c lo hi dims = (False, c)) \<and>
   (0 \<le> vx dims \<and> 0 \<le> vy dims \<and> 0 \<le> vz dims \<and> vx lo \<le> vx hi \<and> vy lo \<le> vy hi \<and> vz lo \<le> vz hi
      \<longrightarrow> fst (setLimits_points c lo hi dims) \<and>
          m_min (snd (setLimits_points c lo hi dims)) = lo \<and>
          m_max (snd (setLimits_points c lo hi dims)) = hi \<and>
          m_points (snd (setLimits_points c lo hi dims)) = dims \<and>
          vx (m_spacing (snd (setLimits_points c lo hi dims))) =
            (if vx dims \<le> 1 then 0 else (vx hi - vx lo) / of_int (max (vx dims - 1) 1)) \<and>
          vy (m_spacing (snd (setLimits_points c lo hi dims))) =
            (if vy dims \<le> 1 then 0 else (vy hi - vy lo) / of_int (max (vy dims - 1) 1)) \<and>
          vz (m_spacing (snd (setLimits_points c lo hi dims))) =
            (if vz dims \<le> 1 then 0 else (vz hi - vz lo) / of_int (max (vz dims - 1) 1)) \<and>
          max (vx dims - 1) 1 \<noteq> 0 \<and> max (vy dims - 1) 1 \<noteq> 0 \<and> max (vz dims - 1) 1 \<noteq> 0 \<and>
          int (length (m_data (snd (setLimits_points c lo hi dims)))) = vx dims * vy dims * vz dims \<and>
          m_data (snd (setLimits_points c lo hi dims)) =
            replicate (nat (vx dims * vy dims * vz dims)) 0 \<and>
          m_minValue (snd (setLimits_points c lo hi dims)) = 0 \<and>
          m_maxValue (snd (setLimits_points c lo hi dims)) = 0)"
  (is "(?P \<longrightarrow> ?Q) \<and> (?R \<longrightarrow> ?S)")
proof (rule conjI; rule impI)
  assume ?P
  then show ?Q by (simp add: setLimits_points_def)
next
  assume ok: ?R
  then have n: "0 \<le> vx dims * vy dims * vz dims" by (simp add: dims_product_nonneg)
  from ok have b: "setLimits_points c lo hi dims =
      (True, assignGeometry c lo hi
              (axisSpacing (vx lo) (vx hi) (vx dims),
               axisSpacing (vy lo) (vy hi) (vy dims),
               axisSpacing (vz lo) (vz hi) (vz dims)) dims)"
    by (simp add: setLimits_points_def not_less [symmetric])
  from n show ?S by (simp add: b assignGeometry_def axisSpacing_def max_def)
qed

theorem setLimits_points_spec_witness:
  "setLimits_points emptyCube (0, 0, 0) (1, 1, 1) (-1, 2, 2) = (False, emptyCube) \<and>
   fst (setLimits_points emptyCube (0, 0, 0) (1, 1, 1) (2, 2, 2)) \<and>
   m_spacing (snd (setLimits_points emptyCube (0, 0, 0) (1, 1, 1) (2, 2, 2))) = (1, 1, 1) \<and>
   length (m_data (snd (setLimits_points emptyCube (0, 0, 0) (1, 1, 1) (2, 2, 2)))) = 8 \<and>
   m_spacing (snd (setLimits_points emptyCube (0, 0, 0) (1, 1, 3) (1, 1, 3))) = (0, 0, 3/2)"
  using setLimits_points_spec [of "(-1, 2, 2)" "(1, 1, 1)" "(0, 0, 0)" emptyCube]
    setLimits_points_spec [of "(2, 2, 2)" "(1, 1, 1)" "(0, 0, 0)" emptyCube]
    setLimits_points_spec [of "(1, 1, 3)" "(1, 1, 3)" "(0, 0, 0)" emptyCube]
  by (simp add: setLimits_points_def assignGeometry_def axisSpacing_def)

text \<open>
  C6. Every successful geometry assignment (each of the five forms of \<^verbatim>\<open>setLimits\<close>; for
  the copying form the other grid has the length invariant itself) leaves a grid with
  \<open>samples.length = nx\<cdot>ny\<cdot>nz\<close>, every sample zero and both extrema at the baseline zero.
  Every run of the other writing operations (\<^verbatim>\<open>setValue\<close> in both forms, \<^verbatim>\<open>setData\<close>,
  \<^verbatim>\<open>addData\<close>, failed calls included) keeps the dimensions and the length invariant.
\<close>

theorem geometry_length_invariant:
  "(fst (setLimits_points c lo hi dims) \<longrightarrow> fresh (snd (setLimits_points c lo hi dims))) \<and>
   (fst (setLimits_spacing c lo hi sp) \<longrightarrow> fresh (snd (setLimits_spacing c lo hi sp))) \<and>
   (fst (setLimits_dim c lo dims sp) \<longrightarrow> fresh (snd (setLimits_dim c lo dims sp))) \<and>
   (sized other \<longrightarrow> fst (setLimits_cube c other) \<and> fresh (snd (setLimits_cube c other))) \<and>
   (fst (setLimits_molecule c mol sp padding) \<longrightarrow>
      fresh (snd (setLimits_molecule c mol sp padding))) \<and>
   (sized c \<longrightarrow> sized (applyWrites c ws) \<and> m_points (applyWrites c ws) = m_points c)"
  using setLimits_points_fresh setLimits_spacing_fresh setLimits_dim_fresh setLimits_cube_fresh
    setLimits_molecule_fresh applyWrites_sized
  by blast

theorem geometry_length_invariant_witness:
  "fst (setLimits_points emptyCube (0, 0, 0) (1, 1, 1) (2, 2, 2)) \<and>
   fresh (snd (setLimits_points emptyCube (0, 0, 0) (1, 1, 1) (2, 2, 2))) \<and>
   fst (setLimits_spacing emptyCube (0, 0, 0) (1, 1, 1) (1/2)) \<and>
   fresh (snd (setLimits_spacing emptyCube (0, 0, 0) (1, 1, 1) (1/2))) \<and>
   fst (setLimits_dim emptyCube (0, 0, 0) (2, 2, 2) (1/2)) \<and>
   fresh (snd (setLimits_dim emptyCube (0, 0, 0) (2, 2, 2) (1/2))) \<and>
   sized cube222 \<and> fresh (snd (setLimits_cube emptyCube cube222)) \<and>
   fst (setLimits_molecule emptyCube [((0, 0, 0), Some 1), ((2, 1, 0), None)] (1/2) 1) \<and>
   fresh (snd (setLimits_molecule emptyCube [((0, 0, 0), Some 1), ((2, 1, 0), None)] (1/2) 1)) \<and>
   sized (applyWrites cube222 [SetValue 3 9, SetValueIJK 1 1 1 2, AddData [1, 1, 1, 1, 1, 1, 1, 1],
     SetData [0, 0]]) \<and>
   m_data (applyWrites cube222 [SetValue 3 9, SetValueIJK 1 1 1 2, AddData [1, 1, 1, 1, 1, 1, 1, 1],
     SetData [0, 0]]) = [1, 2, 3, 10, 5, 6, 7, 3]"
proof -
  have p: "fst (setLimits_points emptyCube (0, 0, 0) (1, 1, 1) (2, 2, 2))"
    by (simp add: setLimits_points_def)
  have s: "fst (setLimits_spacing emptyCube (0, 0, 0) (1, 1, 1) (1/2))"
    by (simp add: setLimits_spacing_def setLimits_points_def)
  have d: "fst (setLimits_dim emptyCube (0, 0, 0) (2, 2, 2) (1/2))"
    by (simp add: setLimits_dim_def)
  have z: "sized cube222" by (simp add: cube222_eq sized_def)
  have m: "fst (setLimits_molecule emptyCube [((0, 0, 0), Some 1), ((2, 1, 0), None)] (1/2) 1)"
    by (simp add: setLimits_molecule_def setLimits_spacing_def setLimits_points_def radius_def)
  have w: "m_data (applyWrites cube222 [SetValue 3 9, SetValueIJK 1 1 1 2,
      AddData [1, 1, 1, 1, 1, 1, 1, 1], SetData [0, 0]]) = [1, 2, 3, 10, 5, 6, 7, 3]"
    by (simp add: cube222_eq setValue_def setValue_ijk_def inRange_def encode_def addData_def
        setData_def rescan_def)
  from p s d z m w
    geometry_length_invariant [where c = emptyCube and lo = "(0, 0, 0)" and hi = "(1, 1, 1)"
      and dims = "(2, 2, 2)" and sp = "1/2" and other = cube222
      and mol = "[((0, 0, 0), Some 1), ((2, 1, 0), None)]" and padding = 1]
    geometry_length_invariant [where c = cube222 and ws = "[SetValue 3 9, SetValueIJK 1 1 1 2,
      AddData [1, 1, 1, 1, 1, 1, 1, 1], SetData [0, 0]]"]
  show ?thesis by blast
qed

section \<open>Bulk writes\<close>

text \<open>
  C7. \<^verbatim>\<open>setData(values)\<close> and \<^verbatim>\<open>addData(values)\<close> fail and return the grid as it was
  when the number of values differs from the number of samples. Otherwise both succeed:
  \<^verbatim>\<open>setData\<close> replaces the samples by the values, \<^verbatim>\<open>addData\<close> adds \<open>values[n]\<close> to
  \<open>samples[n]\<close> for every \<open>n\<close>, and in both cases the extrema afterwards are the least and
  the greatest of the resulting samples.
\<close>

theorem bulk_writes:
  "(length vals \<noteq> length (m_data c) \<longrightarrow>
      setData c vals = (False, c) \<and> addData c vals = (False, c)) \<and>
   (length vals = length (m_data c) \<longrightarrow>
      fst (setData c vals) \<and> m_data (snd (setData c vals)) = vals \<and>
      exactExtrema (snd (setData c vals)) \<and>
      fst (addData c vals) \<and> length (m_data (snd (addData c vals))) = length (m_data c) \<and>
      (\<forall>n < length (m_data c). m_data (snd (addData c vals)) ! n = m_data c ! n + vals ! n) \<and>
      exactExtrema (snd (addData c vals)))"
proof -
  have r: "exactExtrema (rescan d)" for d
  proof (cases "m_data d")
    case Nil
    then show ?thesis by (simp add: exactExtrema_def rescan_def)
  next
    case (Cons v vs)
    have "fold min vs v = Min (set (v # vs))" "fold max vs v = Max (set (v # vs))"
      by (simp_all only: Min.set_eq_fold Max.set_eq_fold)
    with Cons show ?thesis by (simp add: exactExtrema_def rescan_def)
  qed
  have m: "m_data (rescan d) = m_data d" for d
    by (simp add: rescan_frame)
  show ?thesis
    by (simp add: setData_def addData_def r m)
qed

theorem bulk_writes_witness:
  "setData cube222 [1, 2, 3, 4, 5, 6, 7] = (False, cube222) \<and>
   addData cube222 [1, 2, 3, 4, 5, 6, 7] = (False, cube222) \<and>
   fst (setData cube222 [3, 1, 4, 1, 5, 9, 2, 6]) \<and>
   m_data (snd (setData cube222 [3, 1, 4, 1, 5, 9, 2, 6])) = [3, 1, 4, 1, 5, 9, 2, 6] \<and>
   m_minValue (snd (setData cube222 [3, 1, 4, 1, 5, 9, 2, 6])) = 1 \<and>
   m_maxValue (snd (setData cube222 [3, 1, 4, 1, 5, 9, 2, 6])) = 9 \<and>
   exactExtrema (snd (setData cube222 [3, 1, 4, 1, 5, 9, 2, 6])) \<and>
   fst (addData cube222 [1, 1, 1, 1, 1, 1, 1, -20]) \<and>
   m_data (snd (addData cube222 [1, 1, 1, 1, 1, 1, 1, -20])) = [1, 2, 3, 4, 5, 6, 7, -13] \<and>
   m_minValue (snd (addData cube222 [1, 1, 1, 1, 1, 1, 1, -20])) = -13 \<and>
   m_maxValue (snd (addData cube222 [1, 1, 1, 1, 1, 1, 1, -20])) = 7 \<and>
   exactExtrema (snd (addData cube222 [1, 1, 1, 1, 1, 1, 1, -20]))"
proof -
  have l: "length [1, 2, 3, 4, 5, 6, 7 :: real] \<noteq> length (m_data cube222)"
    "length [3, 1, 4, 1, 5, 9, 2, 6 :: real] = length (m_data cube222)"
    "length [1, 1, 1, 1, 1, 1, 1, -20 :: real] = length (m_data cube222)"
    by (simp_all add: cube222_eq)
  have v: "m_minValue (snd (setData cube222 [3, 1, 4, 1, 5, 9, 2, 6])) = 1"
    "m_maxValue (snd (setData cube222 [3, 1, 4, 1, 5, 9, 2, 6])) = 9"
    "m_data (snd (addData cube222 [1, 1, 1, 1, 1, 1, 1, -20])) = [1, 2, 3, 4, 5, 6, 7, -13]"
    "m_minValue (snd (addData cube222 [1, 1, 1, 1, 1, 1, 1, -20])) = -13"
    "m_maxValue (snd (addData cube222 [1, 1, 1, 1, 1, 1, 1, -20])) = 7"
    by (simp_all add: cube222_eq setData_def addData_def rescan_def)
  from l v bulk_writes [of "[1, 2, 3, 4, 5, 6, 7]" cube222]
    bulk_writes [of "[3, 1, 4, 1, 5, 9, 2, 6]" cube222]
    bulk_writes [of "[1, 1, 1, 1, 1, 1, 1, -20]" cube222]
  show ?thesis by blast
qed

end
